theory Spec2Isabelle
  imports Main "HOL-Library.Multiset"
begin

section \<open>Data model of main.go\<close>

text \<open>
  The Go struct \<^verbatim>\<open>Book { ID string; Title string }\<close>. Go strings are byte
  sequences, as HOL strings are.
\<close>

record Book =
  ID :: string
  Title :: string

text \<open>
  The package variable \<^verbatim>\<open>books = make(map[string]Book)\<close>. The handlers read and
  assign it; the model passes it in and returns it. A handler runs on the store from
  start to end, one request at a time, so the \<^verbatim>\<open>mux.Lock\<close>/\<^verbatim>\<open>mux.Unlock\<close>
  pairs around each access of the map have no counterpart here.
\<close>

type_synonym store = "string \<rightharpoonup> Book"

definition books_init :: store where
  "books_init = Map.empty"

subsection \<open>Go slices and the JSON documents encoding/json writes\<close>

text \<open>
  A slice is either nil or holds a sequence of elements; \<^verbatim>\<open>make([]T, 0, n)\<close> is
  the empty slice that is not nil, and \<^verbatim>\<open>append\<close> accepts both. The capacity
  has no observable effect here and is left out.
\<close>

datatype 'a slice = NilSlice | Slice "'a list"

definition make_slice :: "nat \<Rightarrow> 'a slice" where
  "make_slice capacity = Slice []"

fun append_slice :: "'a slice \<Rightarrow> 'a \<Rightarrow> 'a slice" where
  "append_slice NilSlice x = Slice [x]"
| "append_slice (Slice xs) x = Slice (xs @ [x])"

text \<open>
  A JSON document as a tree. The encoder of encoding/json writes a struct as an object
  with one member per tagged field, in the order of declaration, a nil slice as
  \<^verbatim>\<open>null\<close> and any other slice as an array. The escaping of string literals and
  the line terminator written after each document belong to the library and are
  not part of the tree.
\<close>

datatype json = JNull | JString string | JArray "json list" | JObject "(string \<times> json) list"

definition marshal_Book :: "Book \<Rightarrow> json" where
  "marshal_Book b = JObject [(''id'', JString (ID b)), (''title'', JString (Title b))]"

fun marshal_Books :: "Book slice \<Rightarrow> json" where
  "marshal_Books NilSlice = JNull"
| "marshal_Books (Slice bs) = JArray (map marshal_Book bs)"

subsection \<open>Requests and the response writer of net/http\<close>

text \<open>
  The fields of \<^verbatim>\<open>http.Request\<close> that the handlers read: the method, the path
  of the URL, the header and the body. A header maps a name to the list of values
  sent under it; \<^verbatim>\<open>Header.Get\<close> returns the first value, and the empty
  string when there is none. Header names are identified with their canonical form.
\<close>

record Request =
  Method :: string
  Path :: string
  Header :: "string \<rightharpoonup> string list"
  Body :: string

definition Header_Get :: "(string \<rightharpoonup> string list) \<Rightarrow> string \<Rightarrow> string" where
  "Header_Get h key = (case h key of None \<Rightarrow> [] | Some [] \<Rightarrow> [] | Some (v # _) \<Rightarrow> v)"

text \<open>
  What a handler has sent through its \<^verbatim>\<open>http.ResponseWriter\<close>: the status code,
  once the header is written, and the pieces of the body in the order written. A
  piece is either a plain text message (what \<^verbatim>\<open>http.Error\<close> sends) or a JSON
  document (what \<^verbatim>\<open>json.NewEncoder(w).Encode\<close> sends).
\<close>

datatype chunk = PlainText string | JsonDoc json

record ResponseWriter =
  status :: "nat option"
  written :: "chunk list"

definition newResponse :: ResponseWriter where
  "newResponse = \<lparr>status = None, written = []\<rparr>"

text \<open>
  \<^verbatim>\<open>WriteHeader\<close> fixes the status code; a second call is ignored. The first
  \<^verbatim>\<open>Write\<close> sends status 200 when no header was written before. A response
  whose handler returns without having written anything is sent with status 200.
\<close>

definition WriteHeader :: "nat \<Rightarrow> ResponseWriter \<Rightarrow> ResponseWriter" where
  "WriteHeader c w = (if status w = None then w\<lparr>status := Some c\<rparr> else w)"

definition Write :: "chunk \<Rightarrow> ResponseWriter \<Rightarrow> ResponseWriter" where
  "Write x w = (let w' = WriteHeader 200 w in w'\<lparr>written := written w' @ [x]\<rparr>)"

definition StatusCode :: "ResponseWriter \<Rightarrow> nat" where
  "StatusCode w = (case status w of None \<Rightarrow> 200 | Some c \<Rightarrow> c)"

definition StatusUnauthorized :: nat where "StatusUnauthorized = 401"
definition StatusBadRequest :: nat where "StatusBadRequest = 400"
definition StatusNotFound :: nat where "StatusNotFound = 404"
definition StatusCreated :: nat where "StatusCreated = 201"
definition StatusNoContent :: nat where "StatusNoContent = 204"
definition StatusMethodNotAllowed :: nat where "StatusMethodNotAllowed = 405"

definition http_Error :: "ResponseWriter \<Rightarrow> string \<Rightarrow> nat \<Rightarrow> ResponseWriter" where
  "http_Error w msg c = Write (PlainText msg) (WriteHeader c w)"

definition http_NotFound :: "ResponseWriter \<Rightarrow> ResponseWriter" where
  "http_NotFound w = http_Error w ''404 page not found'' StatusNotFound"

definition Encode_Book :: "ResponseWriter \<Rightarrow> Book \<Rightarrow> ResponseWriter" where
  "Encode_Book w b = Write (JsonDoc (marshal_Book b)) w"

definition Encode_Books :: "ResponseWriter \<Rightarrow> Book slice \<Rightarrow> ResponseWriter" where
  "Encode_Books w bks = Write (JsonDoc (marshal_Books bks)) w"

text \<open>
  The decoder of encoding/json is a parameter of the handlers: a function from the
  bytes of the request body to either the text of the decoding error
  (\<^verbatim>\<open>err.Error()\<close>) or the decoded \<^verbatim>\<open>Book\<close>.
\<close>

type_synonym decoder = "string \<Rightarrow> string + Book"

text \<open>
  A handler runs on a response writer, a request and the store. It returns the
  response writer and the store as it leaves them, or panics (the slice expression
  of \<^verbatim>\<open>handleBook\<close> is the one place that can).
\<close>

datatype panic = SliceBoundsOutOfRange

type_synonym HandlerFunc =
  "ResponseWriter \<Rightarrow> Request \<Rightarrow> store \<Rightarrow> panic + (ResponseWriter \<times> store)"

section \<open>The functions of main.go\<close>

definition initializeBooks :: "store \<Rightarrow> store" where
  "initializeBooks books =
     books(''1'' \<mapsto> \<lparr>ID = ''1'', Title = ''1984''\<rparr>,
           ''2'' \<mapsto> \<lparr>ID = ''2'', Title = ''Brave New World''\<rparr>,
           ''3'' \<mapsto> \<lparr>ID = ''3'', Title = ''To Kill a Mockingbird''\<rparr>,
           ''4'' \<mapsto> \<lparr>ID = ''4'', Title = ''The Great Gatsby''\<rparr>,
           ''5'' \<mapsto> \<lparr>ID = ''5'', Title = ''Moby Dick''\<rparr>)"

definition authenticate :: "HandlerFunc \<Rightarrow> HandlerFunc" where
  "authenticate next w r books =
     (let apiKey = Header_Get (Header r) ''X-API-Key'' in
      if apiKey \<noteq> ''secret-key''
      then Inr (http_Error w ''Unauthorized'' StatusUnauthorized, books)
      else next w r books)"


fun range_append :: "store \<Rightarrow> string list \<Rightarrow> Book slice \<Rightarrow> Book slice" where
  "range_append books [] bks = bks"
| "range_append books (k # ks) bks =
     range_append books ks (case books k of None \<Rightarrow> bks | Some book \<Rightarrow> append_slice bks book)"

definition handleBooks :: "decoder \<Rightarrow> string list \<Rightarrow> HandlerFunc" where
  "handleBooks decode ks w r books =
     (if Method r = ''GET'' then
        (let bks = range_append books ks (make_slice (length ks))
         in Inr (Encode_Books w bks, books))
      else if Method r = ''POST'' then
        (case decode (Body r) of
           Inl err \<Rightarrow> Inr (http_Error w err StatusBadRequest, books)
         | Inr book \<Rightarrow> Inr (WriteHeader StatusCreated w, books(ID book \<mapsto> book)))
      else Inr (WriteHeader StatusMethodNotAllowed w, books))"

definition handleBook :: "decoder \<Rightarrow> HandlerFunc" where
  "handleBook decode w r books =
     (if length (Path r) < length ''/book/'' then Inl SliceBoundsOutOfRange
      else
        (let id = drop (length ''/book/'') (Path r) in
         if Method r = ''GET'' then
           (case books id of
              None \<Rightarrow> Inr (http_NotFound w, books)
            | Some book \<Rightarrow> Inr (Encode_Book w book, books))
         else if Method r = ''PUT'' then
           (case decode (Body r) of
              Inl err \<Rightarrow> Inr (http_Error w err StatusBadRequest, books)
            | Inr book \<Rightarrow> Inr (Encode_Book w book, books(id \<mapsto> book)))
         else if Method r = ''DELETE'' then
           Inr (WriteHeader StatusNoContent w, books(id := None))
         else Inr (WriteHeader StatusMethodNotAllowed w, books)))"

text \<open>
  The two registrations of \<^verbatim>\<open>main\<close>:
  \<^verbatim>\<open>http.HandleFunc("/books", authenticate(handleBooks))\<close> and
  \<^verbatim>\<open>http.HandleFunc("/book/", authenticate(handleBook))\<close>.
\<close>

definition books_route :: "decoder \<Rightarrow> string list \<Rightarrow> HandlerFunc" where
  "books_route decode ks = authenticate (handleBooks decode ks)"

definition book_route :: "decoder \<Rightarrow> HandlerFunc" where
  "book_route decode = authenticate (handleBook decode)"

text \<open>
  What the server of net/http does with a registered handler for one request: it
  calls the handler on a fresh response writer, and when the handler returns it
  sends the response. The result is the status code and body sent, and the store
  the handler leaves behind.
\<close>

definition serve :: "HandlerFunc \<Rightarrow> Request \<Rightarrow> store \<Rightarrow> panic + ((nat \<times> chunk list) \<times> store)" where
  "serve h r books =
     (case h newResponse r books of
        Inl p \<Rightarrow> Inl p
      | Inr (w, books') \<Rightarrow> Inr ((StatusCode w, written w), books'))"

section \<open>What one request does, handler by handler\<close>

lemmas writer_defs = newResponse_def WriteHeader_def Write_def StatusCode_def
  http_Error_def http_NotFound_def Encode_Book_def Encode_Books_def
  StatusUnauthorized_def StatusBadRequest_def StatusNotFound_def StatusCreated_def
  StatusNoContent_def StatusMethodNotAllowed_def

lemma serve_authenticate_reject:
  "Header_Get (Header r) ''X-API-Key'' \<noteq> ''secret-key'' \<Longrightarrow>
   serve (authenticate next) r books = Inr ((401, [PlainText ''Unauthorized'']), books)"
  by (simp add: serve_def authenticate_def writer_defs)

lemma serve_authenticate_accept:
  "Header_Get (Header r) ''X-API-Key'' = ''secret-key'' \<Longrightarrow>
   serve (authenticate next) r books = serve next r books"
  by (simp add: serve_def authenticate_def)

lemma serve_handleBook_GET:
  "Method r = ''GET'' \<Longrightarrow> Path r = ''/book/'' @ ident \<Longrightarrow>
   serve (handleBook decode) r books =
     (case books ident of
        None \<Rightarrow> Inr ((404, [PlainText ''404 page not found'']), books)
      | Some book \<Rightarrow> Inr ((200, [JsonDoc (marshal_Book book)]), books))"
  by (simp add: serve_def handleBook_def writer_defs split: option.split)

lemma serve_handleBook_PUT:
  "Method r = ''PUT'' \<Longrightarrow> Path r = ''/book/'' @ ident \<Longrightarrow>
   serve (handleBook decode) r books =
     (case decode (Body r) of
        Inl err \<Rightarrow> Inr ((400, [PlainText err]), books)
      | Inr book \<Rightarrow> Inr ((200, [JsonDoc (marshal_Book book)]), books(ident \<mapsto> book)))"
  by (simp add: serve_def handleBook_def writer_defs split: sum.split)

lemma serve_handleBook_DELETE:
  "Method r = ''DELETE'' \<Longrightarrow> Path r = ''/book/'' @ ident \<Longrightarrow>
   serve (handleBook decode) r books = Inr ((204, []), books(ident := None))"
  by (simp add: serve_def handleBook_def writer_defs)

lemma serve_handleBooks_POST:
  "Method r = ''POST'' \<Longrightarrow>
   serve (handleBooks decode ks) r books =
     (case decode (Body r) of
        Inl err \<Rightarrow> Inr ((400, [PlainText err]), books)
      | Inr book \<Rightarrow> Inr ((201, []), books(ID book \<mapsto> book)))"
  by (simp add: serve_def handleBooks_def writer_defs split: sum.split)





lemma Header_Get_missing: "h key = None \<Longrightarrow> Header_Get h key = []"
  by (simp add: Header_Get_def)

section \<open>The claims\<close>

text \<open>
  Claim C1 (access gate). Whatever the method and on either route, a request whose
  \<^verbatim>\<open>X-API-Key\<close> header is missing or differs from \<^verbatim>\<open>secret-key\<close> is answered
  with status 401 and the text \<^verbatim>\<open>Unauthorized\<close>. The answer and the store are the
  same whichever handler \<open>next\<close> is wrapped, so the wrapped handler is not run, and the
  store is returned as it was.
\<close>

theorem authenticate_rejects:
  assumes "Header r ''X-API-Key'' = None \<or> Header_Get (Header r) ''X-API-Key'' \<noteq> ''secret-key''"
  shows "authenticate next w r books = Inr (http_Error w ''Unauthorized'' StatusUnauthorized, books)
       \<and> serve (authenticate next) r books = Inr ((401, [PlainText ''Unauthorized'']), books)
       \<and> serve (books_route decode ks) r books = Inr ((401, [PlainText ''Unauthorized'']), books)
       \<and> serve (book_route decode) r books = Inr ((401, [PlainText ''Unauthorized'']), books)"
proof -
  from assms have bad: "Header_Get (Header r) ''X-API-Key'' \<noteq> ''secret-key''"
    by (auto simp: Header_Get_missing)
  have "authenticate next w r books = Inr (http_Error w ''Unauthorized'' StatusUnauthorized, books)"
    using bad by (simp add: authenticate_def)
  moreover note serve_authenticate_reject [OF bad]
  ultimately show ?thesis
    by (simp add: books_route_def book_route_def)
qed

theorem authenticate_rejects_witness:
  "serve (book_route (\<lambda>b. Inl ''EOF''))
     \<lparr>Method = ''DELETE'', Path = ''/book/1'', Header = Map.empty, Body = []\<rparr>
     (initializeBooks books_init)
   = Inr ((401, [PlainText ''Unauthorized'']), initializeBooks books_init)
   \<and> serve (books_route (\<lambda>b. Inr \<lparr>ID = ''6'', Title = ''Dune''\<rparr>) [])
     \<lparr>Method = ''POST'', Path = ''/books'', Header = [''X-API-Key'' \<mapsto> [''secret'']], Body = []\<rparr>
     books_init
   = Inr ((401, [PlainText ''Unauthorized'']), books_init)"
  using authenticate_rejects [of "\<lparr>Method = ''DELETE'', Path = ''/book/1'', Header = Map.empty, Body = []\<rparr>"
      "handleBook (\<lambda>b. Inl ''EOF'')" newResponse "initializeBooks books_init"
      "\<lambda>b. Inl ''EOF''" "[]"]
    authenticate_rejects [of "\<lparr>Method = ''POST'', Path = ''/books'', Header = [''X-API-Key'' \<mapsto> [''secret'']], Body = []\<rparr>"
      "handleBooks (\<lambda>b. Inr \<lparr>ID = ''6'', Title = ''Dune''\<rparr>) []" newResponse "books_init"
      "\<lambda>b. Inr \<lparr>ID = ''6'', Title = ''Dune''\<rparr>" "[]"]
  by (simp add: Header_Get_def)

text \<open>
  Claim C2 (PUT on an item). With a valid key, \<^verbatim>\<open>PUT /book/{id}\<close> whose body decodes
  to a book stores that book under the key \<open>ident\<close> of the path, whatever the store held
  before, and answers 200 with the JSON of the book. When the book's own \<open>ID\<close> is not
  \<open>ident\<close>, the key and the \<open>ID\<close> of the stored book differ. A following
  \<^verbatim>\<open>GET /book/{id}\<close> answers 200 with the same JSON.
\<close>

theorem put_book_stores_body:
  assumes "Header_Get (Header r) ''X-API-Key'' = ''secret-key''"
    and "Method r = ''PUT''" and "Path r = ''/book/'' @ ident"
    and "decode (Body r) = Inr book"
    and "Header_Get (Header g) ''X-API-Key'' = ''secret-key''"
    and "Method g = ''GET''" and "Path g = ''/book/'' @ ident"
  shows "serve (book_route decode) r books =
           Inr ((200, [JsonDoc (marshal_Book book)]), books(ident \<mapsto> book))
       \<and> (books(ident \<mapsto> book)) ident = Some book
       \<and> (ID book \<noteq> ident \<longrightarrow>
            (\<exists>stored. (books(ident \<mapsto> book)) ident = Some stored \<and> ID stored \<noteq> ident))
       \<and> serve (book_route decode) g (books(ident \<mapsto> book)) =
           Inr ((200, [JsonDoc (marshal_Book book)]), books(ident \<mapsto> book))"
  using assms
  by (simp add: book_route_def serve_authenticate_accept serve_handleBook_PUT serve_handleBook_GET)

theorem put_book_stores_body_witness:
  "serve (book_route (\<lambda>b. Inr \<lparr>ID = ''6'', Title = ''Dune''\<rparr>))
     \<lparr>Method = ''PUT'', Path = ''/book/99'',
      Header = [''X-API-Key'' \<mapsto> [''secret-key'']], Body = ''dune''\<rparr>
     (initializeBooks books_init)
   = Inr ((200, [JsonDoc (JObject [(''id'', JString ''6''), (''title'', JString ''Dune'')])]),
          (initializeBooks books_init)(''99'' \<mapsto> \<lparr>ID = ''6'', Title = ''Dune''\<rparr>))
   \<and> (\<exists>stored. ((initializeBooks books_init)(''99'' \<mapsto> \<lparr>ID = ''6'', Title = ''Dune''\<rparr>)) ''99''
          = Some stored \<and> ID stored \<noteq> ''99'')
   \<and> serve (book_route (\<lambda>b. Inr \<lparr>ID = ''6'', Title = ''Dune''\<rparr>))
     \<lparr>Method = ''GET'', Path = ''/book/99'',
      Header = [''X-API-Key'' \<mapsto> [''secret-key'']], Body = []\<rparr>
     ((initializeBooks books_init)(''99'' \<mapsto> \<lparr>ID = ''6'', Title = ''Dune''\<rparr>))
   = Inr ((200, [JsonDoc (JObject [(''id'', JString ''6''), (''title'', JString ''Dune'')])]),
          (initializeBooks books_init)(''99'' \<mapsto> \<lparr>ID = ''6'', Title = ''Dune''\<rparr>))"
  using put_book_stores_body [of
      "\<lparr>Method = ''PUT'', Path = ''/book/99'',
        Header = [''X-API-Key'' \<mapsto> [''secret-key'']], Body = ''dune''\<rparr>"
      "''99''" "\<lambda>b. Inr \<lparr>ID = ''6'', Title = ''Dune''\<rparr>" "\<lparr>ID = ''6'', Title = ''Dune''\<rparr>"
      "\<lparr>Method = ''GET'', Path = ''/book/99'',
        Header = [''X-API-Key'' \<mapsto> [''secret-key'']], Body = []\<rparr>"
      "initializeBooks books_init"]
  by (simp add: Header_Get_def marshal_Book_def)

text \<open>
  Claim C3 (POST on the collection). With a valid key, \<^verbatim>\<open>POST /books\<close> whose body
  decodes to a book stores that book under the book's own \<open>ID\<close>, whatever the store
  held under that key before, and answers 201 with an empty body. A following
  \<^verbatim>\<open>GET /book/{ID}\<close> answers 200 with the JSON of the posted book.
\<close>

theorem post_books_stores_body:
  assumes "Header_Get (Header r) ''X-API-Key'' = ''secret-key''"
    and "Method r = ''POST''"
    and "decode (Body r) = Inr book"
    and "Header_Get (Header g) ''X-API-Key'' = ''secret-key''"
    and "Method g = ''GET''" and "Path g = ''/book/'' @ ID book"
  shows "serve (books_route decode ks) r books = Inr ((201, []), books(ID book \<mapsto> book))
       \<and> (books(ID book \<mapsto> book)) (ID book) = Some book
       \<and> serve (book_route decode) g (books(ID book \<mapsto> book)) =
           Inr ((200, [JsonDoc (marshal_Book book)]), books(ID book \<mapsto> book))"
  using assms
  by (simp add: book_route_def books_route_def serve_authenticate_accept
      serve_handleBooks_POST serve_handleBook_GET)

theorem post_books_stores_body_witness:
  "serve (books_route (\<lambda>b. Inr \<lparr>ID = ''5'', Title = ''Dune''\<rparr>) [])
     \<lparr>Method = ''POST'', Path = ''/books'',
      Header = [''X-API-Key'' \<mapsto> [''secret-key'']], Body = ''dune''\<rparr>
     (initializeBooks books_init)
   = Inr ((201, []), (initializeBooks books_init)(''5'' \<mapsto> \<lparr>ID = ''5'', Title = ''Dune''\<rparr>))
   \<and> serve (book_route (\<lambda>b. Inr \<lparr>ID = ''5'', Title = ''Dune''\<rparr>))
     \<lparr>Method = ''GET'', Path = ''/book/5'',
      Header = [''X-API-Key'' \<mapsto> [''secret-key'']], Body = []\<rparr>
     ((initializeBooks books_init)(''5'' \<mapsto> \<lparr>ID = ''5'', Title = ''Dune''\<rparr>))
   = Inr ((200, [JsonDoc (JObject [(''id'', JString ''5''), (''title'', JString ''Dune'')])]),
          (initializeBooks books_init)(''5'' \<mapsto> \<lparr>ID = ''5'', Title = ''Dune''\<rparr>))"
  using post_books_stores_body [of
      "\<lparr>Method = ''POST'', Path = ''/books'',
        Header = [''X-API-Key'' \<mapsto> [''secret-key'']], Body = ''dune''\<rparr>"
      "\<lambda>b. Inr \<lparr>ID = ''5'', Title = ''Dune''\<rparr>" "\<lparr>ID = ''5'', Title = ''Dune''\<rparr>"
      "\<lparr>Method = ''GET'', Path = ''/book/5'',
        Header = [''X-API-Key'' \<mapsto> [''secret-key'']], Body = []\<rparr>"
      "[]" "initializeBooks books_init"]
  by (simp add: Header_Get_def marshal_Book_def)

text \<open>
  Claim C4 (POST with a body that does not decode). With a valid key,
  \<^verbatim>\<open>POST /books\<close> whose body the decoder rejects with the error text \<open>err\<close> answers
  400 with \<open>err\<close> as the body and returns the store as it was.
\<close>

theorem post_books_bad_body:
  assumes "Header_Get (Header r) ''X-API-Key'' = ''secret-key''"
    and "Method r = ''POST''"
    and "decode (Body r) = Inl err"
  shows "serve (books_route decode ks) r books = Inr ((400, [PlainText err]), books)"
  using assms
  by (simp add: books_route_def serve_authenticate_accept serve_handleBooks_POST)

theorem post_books_bad_body_witness:
  "serve (books_route (\<lambda>b. Inl ''unexpected EOF'') [])
     \<lparr>Method = ''POST'', Path = ''/books'',
      Header = [''X-API-Key'' \<mapsto> [''secret-key'']], Body = ''{''\<rparr>
     (initializeBooks books_init)
   = Inr ((400, [PlainText ''unexpected EOF'']), initializeBooks books_init)"
  using post_books_bad_body [of
      "\<lparr>Method = ''POST'', Path = ''/books'',
        Header = [''X-API-Key'' \<mapsto> [''secret-key'']], Body = ''{''\<rparr>"
      "\<lambda>b. Inl ''unexpected EOF''" "''unexpected EOF''" "[]" "initializeBooks books_init"]
  by (simp add: Header_Get_def)

text \<open>
  Claim C5 (DELETE on an item). With a valid key, \<^verbatim>\<open>DELETE /book/{id}\<close> answers 204
  with an empty body and leaves the store without the key \<open>ident\<close> and otherwise as it
  was; when the key was absent the store is the same as before. Afterwards
  \<^verbatim>\<open>GET /book/{id}\<close> answers 404, and the same DELETE once more answers 204 and
  does not change the store.
\<close>

theorem delete_book_idempotent:
  assumes "Header_Get (Header r) ''X-API-Key'' = ''secret-key''"
    and "Method r = ''DELETE''" and "Path r = ''/book/'' @ ident"
    and "Header_Get (Header g) ''X-API-Key'' = ''secret-key''"
    and "Method g = ''GET''" and "Path g = ''/book/'' @ ident"
  shows "serve (book_route decode) r books = Inr ((204, []), books(ident := None))
       \<and> dom (books(ident := None)) = dom books - {ident}
       \<and> (\<forall>k. k \<noteq> ident \<longrightarrow> (books(ident := None)) k = books k)
       \<and> (books ident = None \<longrightarrow> books(ident := None) = books)
       \<and> serve (book_route decode) g (books(ident := None)) =
           Inr ((404, [PlainText ''404 page not found'']), books(ident := None))
       \<and> serve (book_route decode) r (books(ident := None)) = Inr ((204, []), books(ident := None))"
  using assms
  by (auto simp add: book_route_def serve_authenticate_accept serve_handleBook_DELETE
      serve_handleBook_GET)

theorem delete_book_idempotent_witness:
  "serve (book_route (\<lambda>b. Inl ''EOF''))
     \<lparr>Method = ''DELETE'', Path = ''/book/1'',
      Header = [''X-API-Key'' \<mapsto> [''secret-key'']], Body = []\<rparr>
     (initializeBooks books_init)
   = Inr ((204, []), (initializeBooks books_init)(''1'' := None))
   \<and> dom ((initializeBooks books_init)(''1'' := None)) = {''2'', ''3'', ''4'', ''5''}
   \<and> serve (book_route (\<lambda>b. Inl ''EOF''))
     \<lparr>Method = ''GET'', Path = ''/book/1'',
      Header = [''X-API-Key'' \<mapsto> [''secret-key'']], Body = []\<rparr>
     ((initializeBooks books_init)(''1'' := None))
   = Inr ((404, [PlainText ''404 page not found'']), (initializeBooks books_init)(''1'' := None))
   \<and> serve (book_route (\<lambda>b. Inl ''EOF''))
     \<lparr>Method = ''DELETE'', Path = ''/book/1'',
      Header = [''X-API-Key'' \<mapsto> [''secret-key'']], Body = []\<rparr>
     ((initializeBooks books_init)(''1'' := None))
   = Inr ((204, []), (initializeBooks books_init)(''1'' := None))"
  using delete_book_idempotent [of
      "\<lparr>Method = ''DELETE'', Path = ''/book/1'',
        Header = [''X-API-Key'' \<mapsto> [''secret-key'']], Body = []\<rparr>"
      "''1''"
      "\<lparr>Method = ''GET'', Path = ''/book/1'',
        Header = [''X-API-Key'' \<mapsto> [''secret-key'']], Body = []\<rparr>"
      "\<lambda>b. Inl ''EOF''" "initializeBooks books_init"]
  by (auto simp add: Header_Get_def initializeBooks_def books_init_def)

text \<open>
  Claim C6 (GET on an item). With a valid key, \<^verbatim>\<open>GET\<close> on the path \<^verbatim>\<open>/book/\<close>
  followed by \<open>ident\<close> answers 404 exactly when the store has nothing under \<open>ident\<close>,
  and otherwise 200 with the JSON of the book stored there; the store is not changed.
  \<open>ident\<close> is whatever follows the prefix, the empty string included.
\<close>

theorem get_book_found_or_404:
  assumes "Header_Get (Header r) ''X-API-Key'' = ''secret-key''"
    and "Method r = ''GET''" and "Path r = ''/book/'' @ ident"
  shows "\<exists>c body. serve (book_route decode) r books = Inr ((c, body), books)
       \<and> (c = 404 \<longleftrightarrow> books ident = None)
       \<and> (books ident = None \<longrightarrow> body = [PlainText ''404 page not found''])
       \<and> (\<forall>book. books ident = Some book \<longrightarrow> c = 200 \<and> body = [JsonDoc (marshal_Book book)])"
  using assms
  by (cases "books ident")
    (simp_all add: book_route_def serve_authenticate_accept serve_handleBook_GET)

theorem get_book_found_or_404_witness:
  "serve (book_route (\<lambda>b. Inl ''EOF''))
     \<lparr>Method = ''GET'', Path = ''/book/'',
      Header = [''X-API-Key'' \<mapsto> [''secret-key'']], Body = []\<rparr>
     (books_init([] \<mapsto> \<lparr>ID = ''7'', Title = ''Emma''\<rparr>))
   = Inr ((200, [JsonDoc (JObject [(''id'', JString ''7''), (''title'', JString ''Emma'')])]),
          books_init([] \<mapsto> \<lparr>ID = ''7'', Title = ''Emma''\<rparr>))"
  using get_book_found_or_404 [of
      "\<lparr>Method = ''GET'', Path = ''/book/'',
        Header = [''X-API-Key'' \<mapsto> [''secret-key'']], Body = []\<rparr>"
      "[]" "\<lambda>b. Inl ''EOF''" "books_init([] \<mapsto> \<lparr>ID = ''7'', Title = ''Emma''\<rparr>)"]
  by (auto simp add: Header_Get_def marshal_Book_def)





text \<open>
  Claim C9 (one key per mutation). \<^verbatim>\<open>POST /books\<close> whose body decodes to a book
  leaves the store unchanged at every key other than the book's \<open>ID\<close>;
  \<^verbatim>\<open>PUT /book/{id}\<close> and \<^verbatim>\<open>DELETE /book/{id}\<close> leave it unchanged at every key
  other than \<open>ident\<close>. This holds with and without a valid key, and for PUT
  whether or not the body decodes.
\<close>

theorem mutations_touch_one_key:
  "(Method r = ''POST'' \<and> decode (Body r) = Inr book \<longrightarrow>
      (\<exists>resp books'. serve (books_route decode ks) r books = Inr (resp, books')
         \<and> (\<forall>k. k \<noteq> ID book \<longrightarrow> books' k = books k)))
   \<and> ((Method r = ''PUT'' \<or> Method r = ''DELETE'') \<and> Path r = ''/book/'' @ ident \<longrightarrow>
      (\<exists>resp books'. serve (book_route decode) r books = Inr (resp, books')
         \<and> (\<forall>k. k \<noteq> ident \<longrightarrow> books' k = books k)))"
proof (cases "Header_Get (Header r) ''X-API-Key'' = ''secret-key''")
  case True
  have "serve (books_route decode ks) r books = Inr ((201, []), books(ID book \<mapsto> book))"
    if "Method r = ''POST''" "decode (Body r) = Inr book"
    using that True by (simp add: books_route_def serve_authenticate_accept serve_handleBooks_POST)
  moreover have "\<exists>resp books'. serve (book_route decode) r books = Inr (resp, books')
         \<and> (\<forall>k. k \<noteq> ident \<longrightarrow> books' k = books k)"
    if "Method r = ''PUT''" "Path r = ''/book/'' @ ident"
    using that True
    by (cases "decode (Body r)")
      (simp_all add: book_route_def serve_authenticate_accept serve_handleBook_PUT)
  moreover have "serve (book_route decode) r books = Inr ((204, []), books(ident := None))"
    if "Method r = ''DELETE''" "Path r = ''/book/'' @ ident"
    using that True by (simp add: book_route_def serve_authenticate_accept serve_handleBook_DELETE)
  ultimately show ?thesis
    by auto
next
  case False
  then show ?thesis
    by (simp add: books_route_def book_route_def serve_authenticate_reject)
qed

theorem mutations_touch_one_key_witness:
  "(\<exists>resp books'.
      serve (books_route (\<lambda>b. Inr \<lparr>ID = ''2'', Title = ''Dune''\<rparr>) [])
        \<lparr>Method = ''POST'', Path = ''/books'',
         Header = [''X-API-Key'' \<mapsto> [''secret-key'']], Body = ''dune''\<rparr>
        (initializeBooks books_init) = Inr (resp, books')
      \<and> books' ''2'' = Some \<lparr>ID = ''2'', Title = ''Dune''\<rparr>
      \<and> (\<forall>k. k \<noteq> ''2'' \<longrightarrow> books' k = initializeBooks books_init k))
   \<and> (\<exists>resp books'.
      serve (book_route (\<lambda>b. Inl ''EOF''))
        \<lparr>Method = ''DELETE'', Path = ''/book/3'',
         Header = [''X-API-Key'' \<mapsto> [''secret-key'']], Body = []\<rparr>
        (initializeBooks books_init) = Inr (resp, books')
      \<and> books' ''3'' = None
      \<and> (\<forall>k. k \<noteq> ''3'' \<longrightarrow> books' k = initializeBooks books_init k))"
proof -
  let ?post = "\<lparr>Method = ''POST'', Path = ''/books'',
         Header = [''X-API-Key'' \<mapsto> [''secret-key'']], Body = ''dune''\<rparr>"
  let ?del = "\<lparr>Method = ''DELETE'', Path = ''/book/3'',
         Header = [''X-API-Key'' \<mapsto> [''secret-key'']], Body = []\<rparr>"
  have p: "serve (books_route (\<lambda>b. Inr \<lparr>ID = ''2'', Title = ''Dune''\<rparr>) []) ?post
             (initializeBooks books_init)
           = Inr ((201, []), (initializeBooks books_init)(''2'' \<mapsto> \<lparr>ID = ''2'', Title = ''Dune''\<rparr>))"
    by (simp add: books_route_def serve_authenticate_accept serve_handleBooks_POST Header_Get_def)
  have d: "serve (book_route (\<lambda>b. Inl ''EOF'')) ?del (initializeBooks books_init)
           = Inr ((204, []), (initializeBooks books_init)(''3'' := None))"
    by (simp add: book_route_def serve_authenticate_accept
        serve_handleBook_DELETE [where ident = "''3''"] Header_Get_def)
  from mutations_touch_one_key [of ?post "\<lambda>b. Inr \<lparr>ID = ''2'', Title = ''Dune''\<rparr>"
      "\<lparr>ID = ''2'', Title = ''Dune''\<rparr>" "[]" "initializeBooks books_init" "''2''"] p
  have "\<exists>resp books'.
      serve (books_route (\<lambda>b. Inr \<lparr>ID = ''2'', Title = ''Dune''\<rparr>) []) ?post
        (initializeBooks books_init) = Inr (resp, books')
      \<and> books' ''2'' = Some \<lparr>ID = ''2'', Title = ''Dune''\<rparr>
      \<and> (\<forall>k. k \<noteq> ''2'' \<longrightarrow> books' k = initializeBooks books_init k)"
    by simp
  moreover
  from mutations_touch_one_key [of ?del "\<lambda>b. Inl ''EOF''" "\<lparr>ID = ''3'', Title = []\<rparr>" "[]"
      "initializeBooks books_init" "''3''"] d
  have "\<exists>resp books'.
      serve (book_route (\<lambda>b. Inl ''EOF'')) ?del (initializeBooks books_init) = Inr (resp, books')
      \<and> books' ''3'' = None
      \<and> (\<forall>k. k \<noteq> ''3'' \<longrightarrow> books' k = initializeBooks books_init k)"
    by simp
  ultimately show ?thesis
    by blast
qed

end
